theory Spec2Isabelle
  imports Complex_Main
begin

section \<open>Python values, exceptions and strings\<close>

text \<open>
  The repository is a Python client for a chat platform's administration API. Exceptions
  are values: a function that can raise returns \<open>py_exception + 'a\<close>, with \<open>Inl\<close> the
  exception that leaves the function. Only subclasses of Python's \<open>Exception\<close> are
  modelled. A string is a \<open>char list\<close>, one \<open>char\<close> for each code point, up to U+00FF.
\<close>

datatype py_exception =
    ValueError string
  | TypeError string
  | KeyError string
  | ZeroDivisionError
  | OSError string
  | ValidationError string
  | BadUsernameError string
  | UnknownSlackUserCreationError string
  | UserIsActiveError
  | UserAlreadyExistsError string
  | MultipleUsersWithSameEmailError string
  | UnicodeDecodeError string
  | SdkError string
  | PlainException string


text \<open>A string between single quotes, as an f-string writes \<open>'{s}'\<close>.\<close>

definition quoted :: "string \<Rightarrow> string" where
  "quoted s = CHR 0x27 # s @ [CHR 0x27]"

text \<open>
  \<open>str(e)\<close>, as the f-strings of the log lines render an exception: the message, and
  for a \<open>KeyError\<close> the \<open>repr\<close> of the key (the key between quotes, for the keys
  \<open>"id"\<close> and \<open>"active"\<close> that the source subscripts with).
\<close>

fun exc_str :: "py_exception \<Rightarrow> string" where
  "exc_str (ValueError m) = m"
| "exc_str (TypeError m) = m"
| "exc_str (KeyError k) = quoted k"
| "exc_str ZeroDivisionError = ''division by zero''"
| "exc_str (OSError m) = m"
| "exc_str (ValidationError m) = m"
| "exc_str (BadUsernameError m) = m"
| "exc_str (UnknownSlackUserCreationError m) = m"
| "exc_str UserIsActiveError = []"
| "exc_str (UserAlreadyExistsError m) = m"
| "exc_str (MultipleUsersWithSameEmailError m) = m"
| "exc_str (UnicodeDecodeError m) = m"
| "exc_str (SdkError m) = m"
| "exc_str (PlainException m) = m"

datatype pyval = PNone | PBool bool | PInt int | PStr string

text \<open>Truth value of an object, as \<open>if x\<close> and \<open>x and y\<close> test it.\<close>

fun truthy :: "pyval \<Rightarrow> bool" where
  "truthy PNone = False"
| "truthy (PBool b) = b"
| "truthy (PInt i) = (i \<noteq> 0)"
| "truthy (PStr s) = (s \<noteq> [])"

text \<open>
  A dictionary with string keys is an association list; it is false when empty, and
  \<open>d[k]\<close> raises \<open>KeyError\<close> on a missing key.
\<close>

type_synonym pydict = "(string \<times> pyval) list"

definition getitem :: "pydict \<Rightarrow> string \<Rightarrow> py_exception + pyval" where
  "getitem d k = (case map_of d k of None \<Rightarrow> Inl (KeyError k) | Some v \<Rightarrow> Inr v)"

text \<open>
  The whitespace of \<open>str.strip\<close>, \<open>str.lstrip\<close> and of \<open>\s\<close> in a pattern over \<open>str\<close>:
  the code points up to U+00FF for which \<open>str.isspace\<close> holds.
\<close>

definition isspace :: "char \<Rightarrow> bool" where
  "isspace c = (c \<in> set [CHR 0x20, CHR 0x09, CHR 0x0A, CHR 0x0B, CHR 0x0C, CHR 0x0D,
                          CHR 0x1C, CHR 0x1D, CHR 0x1E, CHR 0x1F, CHR 0x85, CHR 0xA0])"

definition lstrip :: "string \<Rightarrow> string" where
  "lstrip s = dropWhile isspace s"

definition strip :: "string \<Rightarrow> string" where
  "strip s = rev (dropWhile isspace (rev (dropWhile isspace s)))"

text \<open>
  \<open>str.lower\<close> on one character: the letters \<open>A\<close> to \<open>Z\<close> and the capital letters
  U+00C0 to U+00DE (U+00D7, the multiplication sign, is none) have a lower case,
  0x20 above; the other code points up to U+00FF stay.
\<close>

definition latin1_upper :: string where
  "latin1_upper =
     [CHR 0xC0, CHR 0xC1, CHR 0xC2, CHR 0xC3, CHR 0xC4, CHR 0xC5, CHR 0xC6, CHR 0xC7,
      CHR 0xC8, CHR 0xC9, CHR 0xCA, CHR 0xCB, CHR 0xCC, CHR 0xCD, CHR 0xCE, CHR 0xCF,
      CHR 0xD0, CHR 0xD1, CHR 0xD2, CHR 0xD3, CHR 0xD4, CHR 0xD5, CHR 0xD6, CHR 0xD8,
      CHR 0xD9, CHR 0xDA, CHR 0xDB, CHR 0xDC, CHR 0xDD, CHR 0xDE]"

definition latin1_lower :: string where
  "latin1_lower =
     [CHR 0xE0, CHR 0xE1, CHR 0xE2, CHR 0xE3, CHR 0xE4, CHR 0xE5, CHR 0xE6, CHR 0xE7,
      CHR 0xE8, CHR 0xE9, CHR 0xEA, CHR 0xEB, CHR 0xEC, CHR 0xED, CHR 0xEE, CHR 0xEF,
      CHR 0xF0, CHR 0xF1, CHR 0xF2, CHR 0xF3, CHR 0xF4, CHR 0xF5, CHR 0xF6, CHR 0xF8,
      CHR 0xF9, CHR 0xFA, CHR 0xFB, CHR 0xFC, CHR 0xFD, CHR 0xFE]"

definition lower_char :: "char \<Rightarrow> char" where
  "lower_char c =
     (case map_of (zip (''ABCDEFGHIJKLMNOPQRSTUVWXYZ'' @ latin1_upper)
                       (''abcdefghijklmnopqrstuvwxyz'' @ latin1_lower)) c of
        None \<Rightarrow> c | Some l \<Rightarrow> l)"

definition lower :: "string \<Rightarrow> string" where
  "lower s = map lower_char s"

text \<open>
  \<open>re.sub(r"\s+", "-", s)\<close>: every maximal run of whitespace becomes one hyphen. The
  flag says that the previous character was whitespace, already replaced.
\<close>

fun sub_ws :: "bool \<Rightarrow> string \<Rightarrow> string" where
  "sub_ws in_run [] = []"
| "sub_ws in_run (c # cs) =
     (if isspace c then (if in_run then sub_ws True cs else CHR ''-'' # sub_ws True cs)
      else c # sub_ws False cs)"

definition re_sub_ws_hyphen :: "string \<Rightarrow> string" where
  "re_sub_ws_hyphen s = sub_ws False s"

text \<open>\<open>s.split(sep)[0]\<close>: the text before the first separator, all of \<open>s\<close> without one.\<close>

definition split_first :: "char \<Rightarrow> string \<Rightarrow> string" where
  "split_first sep s = takeWhile (\<lambda>c. c \<noteq> sep) s"

text \<open>\<open>str(n)\<close> for a length: the decimal digits.\<close>

fun str_nat :: "nat \<Rightarrow> string" where
  "str_nat n =
     (if n < 10 then [''0123456789'' ! n]
      else str_nat (n div 10) @ [''0123456789'' ! (n mod 10)])"

declare str_nat.simps [simp del]

section \<open>The connection manager's state\<close>

text \<open>
  Time is in seconds, as an exact rational (the source subtracts \<open>datetime\<close>s and
  divides floats; rounding is not modelled). The manager's \<open>_debounce_data\<close> maps an
  operation name to a timestamp. The clock and the trace of effects (sleeps, log lines
  and remote calls, oldest first) are the part of the world the code acts on.
\<close>

datatype log_level = INFO | WARNING | ERROR | EXCEPTION

record scim_user =
  userName :: string
  displayName :: string
  su_email :: string
  su_title :: "string option"
  su_department :: "string option"
  su_division :: "string option"
  su_active :: bool

datatype event =
    Sleep rat
  | Log log_level string
  | LogDebounce rat string
  | ScimSearchUsers string
  | ScimPatchPhotos pyval string
  | ScimCreateUser scim_user
  | AdminTeamsList
  | AdminTeamsCreate string string

record manager =
  clock :: rat
  debounce_data :: "string \<rightharpoonup> rat"
  trace :: "event list"

record settings =
  LOG_DEBOUNCING :: bool

definition emit :: "event \<Rightarrow> manager \<Rightarrow> manager" where
  "emit e s = s\<lparr>trace := trace s @ [e]\<rparr>"

text \<open>\<open>await asyncio.sleep(t)\<close>: the clock moves on by \<open>t\<close> (no time passes for \<open>t \<le> 0\<close>).\<close>

definition asyncio_sleep :: "rat \<Rightarrow> manager \<Rightarrow> manager" where
  "asyncio_sleep t s = emit (Sleep t) (s\<lparr>clock := clock s + max t 0\<rparr>)"

text \<open>Time that passes between two calls of the manager.\<close>

definition advance :: "rat \<Rightarrow> manager \<Rightarrow> manager" where
  "advance d s = s\<lparr>clock := clock s + d\<rparr>"

section \<open>Actions\<close>

text \<open>
  A coroutine of the manager is an action: it takes the state and returns the value or
  the exception that left it, with the state as it is then (what was logged, slept and
  called before an exception stays so).
\<close>

type_synonym 'a action = "manager \<Rightarrow> (py_exception + 'a) \<times> manager"

definition returns :: "'a \<Rightarrow> 'a action" where
  "returns x s = (Inr x, s)"

definition raises :: "py_exception \<Rightarrow> 'a action" where
  "raises e s = (Inl e, s)"

definition and_then :: "'a action \<Rightarrow> ('a \<Rightarrow> 'b action) \<Rightarrow> 'b action" where
  "and_then m f s = (case m s of (Inl e, s') \<Rightarrow> (Inl e, s') | (Inr x, s') \<Rightarrow> f x s')"


definition lift :: "py_exception + 'a \<Rightarrow> 'a action" where
  "lift r s = (r, s)"

definition log_line :: "log_level \<Rightarrow> string \<Rightarrow> unit action" where
  "log_line lvl msg s = (Inr (), emit (Log lvl msg) s)"

text \<open>A call of the remote client: the call is recorded, then its outcome is the result.\<close>

definition remote_call :: "event \<Rightarrow> py_exception + 'a \<Rightarrow> 'a action" where
  "remote_call ev outcome s = (outcome, emit ev s)"

section \<open>Debouncing\<close>

text \<open>
  \<open>SlackConnectionManager._debounce\<close>. \<open>60 / rate_limit_per_minute\<close> is a true division:
  it raises \<open>ZeroDivisionError\<close> for a rate of zero, on the path that reaches it.
  \<open>current_time\<close> is read once, before the sleep, and is what is stored at the end.
\<close>

definition debounce :: "settings \<Rightarrow> string \<Rightarrow> int \<Rightarrow> unit action" where
  "debounce cfg function_name rate_limit_per_minute s =
     (case debounce_data s function_name of
        None \<Rightarrow> (Inr (), s\<lparr>debounce_data := (debounce_data s)(function_name \<mapsto> clock s)\<rparr>)
      | Some last_call \<Rightarrow>
          (let current_time = clock s;
               time_since_last_call = current_time - last_call
           in if rate_limit_per_minute = 0 then (Inl ZeroDivisionError, s)
              else if time_since_last_call < 60 / of_int rate_limit_per_minute then
                (let sleep_time = 60 / of_int rate_limit_per_minute - time_since_last_call + 1;
                     s1 = (if LOG_DEBOUNCING cfg then emit (LogDebounce sleep_time function_name) s
                           else s);
                     s2 = asyncio_sleep sleep_time s1
                 in (Inr (), s2\<lparr>debounce_data := (debounce_data s2)(function_name \<mapsto> current_time)\<rparr>))
              else (Inr (), s\<lparr>debounce_data := (debounce_data s)(function_name \<mapsto> current_time)\<rparr>)))"

subsection \<open>Observations of a trace\<close>

text \<open>The durations slept so far, oldest first.\<close>

fun sleeps :: "event list \<Rightarrow> rat list" where
  "sleeps [] = []"
| "sleeps (Sleep t # es) = t # sleeps es"
| "sleeps (_ # es) = sleeps es"


text \<open>The calls made to the remote side so far, oldest first.\<close>

fun is_remote_call :: "event \<Rightarrow> bool" where
  "is_remote_call (ScimSearchUsers _) = True"
| "is_remote_call (ScimPatchPhotos _ _) = True"
| "is_remote_call (ScimCreateUser _) = True"
| "is_remote_call AdminTeamsList = True"
| "is_remote_call (AdminTeamsCreate _ _) = True"
| "is_remote_call _ = False"

definition remote_calls :: "event list \<Rightarrow> event list" where
  "remote_calls tr = filter is_remote_call tr"

section \<open>The remote side\<close>

text \<open>
  The two remote clients are outside the repository. Each call either raises or returns
  a response; the responses are functions of the call's arguments, and any such
  functions are allowed. A response carries the fields the source reads.
\<close>

record search_response =
  sr_status_code :: int
  sr_resources :: "pydict list option"

record patch_response =
  pr_status_code :: int
  pr_errors :: string

record create_response =
  cr_status_code :: int
  cr_id :: string
  cr_description :: string
  cr_body :: string

record team =
  team_name :: string
  team_id :: string

record teams_list_response =
  tl_ok :: bool
  tl_teams :: "team list"

record teams_create_response =
  tc_ok :: bool
  tc_team :: string

record remote =
  scim_search_users :: "string \<Rightarrow> py_exception + search_response"
  scim_patch_user :: "pyval \<Rightarrow> string \<Rightarrow> py_exception + patch_response"
  scim_create_user :: "scim_user \<Rightarrow> py_exception + create_response"
  admin_teams_list :: "py_exception + teams_list_response"
  admin_teams_create :: "string \<Rightarrow> string \<Rightarrow> py_exception + teams_create_response"

section \<open>Operations of the connection manager\<close>

text \<open>
  \<open>SlackConnectionManager.__init__\<close>: an empty token is refused; the debounce table
  starts empty. The clock and the trace so far are the world's.
\<close>

definition SlackConnectionManager_init :: "string \<Rightarrow> rat \<Rightarrow> event list \<Rightarrow> py_exception + manager" where
  "SlackConnectionManager_init token now tr =
     (if token = [] then Inl (ValueError ''Slack Api token is required! '')
      else Inr \<lparr>clock = now, debounce_data = Map.empty, trace = tr\<rparr>)"

text \<open>
  \<open>search_user\<close>. The statement under the status test is \<open>raise ("...")\<close>: raising an
  object that is not an exception raises \<open>TypeError\<close>. \<open>body.get("Resources")\<close> is
  \<open>None\<close> without the key; \<open>not existing_users\<close> holds for \<open>None\<close> and for the empty list.
\<close>

definition search_user :: "remote \<Rightarrow> settings \<Rightarrow> string \<Rightarrow> pydict option action" where
  "search_user rem cfg user_email =
     and_then (debounce cfg ''scim_search_users'' 20) (\<lambda>_.
     let filter_query = ''email eq '' @ user_email in
     and_then (remote_call (ScimSearchUsers filter_query) (scim_search_users rem filter_query))
       (\<lambda>response.
          if sr_status_code response \<noteq> 200
          then raises (TypeError ''exceptions must derive from BaseException'')
          else (case sr_resources response of
                  None \<Rightarrow> returns None
                | Some existing_users \<Rightarrow>
                    if existing_users = [] then returns None
                    else if length existing_users > 1
                    then raises (MultipleUsersWithSameEmailError
                                   (''Multiple users found with email '' @ user_email))
                    else returns (Some (hd existing_users)))))"


text \<open>
  \<open>verify_deactivated_user_email\<close>. \<open>user_data and user_data["active"]\<close> reads the key
  only when \<open>user_data\<close> is true (neither \<open>None\<close> nor an empty dictionary); the
  \<open>return user_data["id"]\<close> after it subscripts \<open>user_data\<close> whatever it is.
\<close>

definition verify_deactivated_user_email :: "remote \<Rightarrow> settings \<Rightarrow> string \<Rightarrow> pyval action" where
  "verify_deactivated_user_email rem cfg user_email =
     and_then (search_user rem cfg user_email) (\<lambda>user_data.
       case user_data of
         None \<Rightarrow> raises (TypeError (quoted ''NoneType'' @ '' object is not subscriptable''))
       | Some d \<Rightarrow>
           if d \<noteq> [] then
             and_then (lift (getitem d ''active'')) (\<lambda>active.
               if truthy active then raises UserIsActiveError
               else lift (getitem d ''id''))
           else lift (getitem d ''id''))"

text \<open>\<open>User\<close> (\<open>data_models/user.py\<close> over \<open>BaseSlackModel\<close>).\<close>

record user =
  slack_id :: "string option"
  name :: string
  email :: string
  title :: "string option"
  section_of :: "string option"
  extention :: "pyval"
  location :: "string option"

text \<open>
  \<open>fill_scim_user\<close>, with \<open>id\<close>, \<open>name\<close> and \<open>active\<close> at their defaults, as both callers
  leave them.
\<close>

definition fill_scim_user ::
  "string \<Rightarrow> string \<Rightarrow> string \<Rightarrow> string option \<Rightarrow> string option \<Rightarrow> string option \<Rightarrow> scim_user" where
  "fill_scim_user username display_name email_addr title_opt location_opt section_opt =
     \<lparr>userName = strip username, displayName = strip display_name, su_email = email_addr,
      su_title = title_opt, su_department = location_opt, su_division = section_opt,
      su_active = False\<rparr>"

text \<open>
  \<open>_create_slack_user\<close>. With status 400 or 409 and an error type outside the three
  username ones, no branch returns or raises: the function ends and returns \<open>None\<close>.
\<close>

definition create_slack_user :: "remote \<Rightarrow> settings \<Rightarrow> scim_user \<Rightarrow> string option action" where
  "create_slack_user rem cfg su =
     and_then (debounce cfg ''create_user'' 20) (\<lambda>_.
     and_then (remote_call (ScimCreateUser su) (scim_create_user rem su))
       (\<lambda>response.
          if cr_status_code response = 201 then returns (Some (cr_id response))
          else if cr_status_code response \<in> {400, 409} then
            (let error_type = split_first CHR '' '' (cr_description response)
             in if error_type \<in> set [''username_invalid'', ''username_too_long'', ''username_taken'']
                then raises (BadUsernameError (cr_body response))
                else returns None)
          else raises (UnknownSlackUserCreationError (cr_body response))))"

definition str_opt :: "string option \<Rightarrow> string" where
  "str_opt x = (case x of None \<Rightarrow> ''None'' | Some v \<Rightarrow> v)"

text \<open>
  \<open>upload_new_single_user\<close>. The first handler catches \<open>BadUsernameError\<close> only; an
  exception raised inside that handler (by the second creation) is not caught by the
  second handler of the same \<open>try\<close>. The last two statements run after either creation
  returns.
\<close>

definition upload_new_single_user :: "remote \<Rightarrow> settings \<Rightarrow> user \<Rightarrow> string option action" where
  "upload_new_single_user rem cfg u =
     (let su = fill_scim_user (name u) (name u) (email u) (title u) (location u) (section_of u);
          finish = (\<lambda>created_user_id.
            and_then (log_line INFO (''User '' @ email u @ '' created successfully. Slack ID: ''
                                       @ str_opt created_user_id))
              (\<lambda>_. returns created_user_id))
      in (\<lambda>s. case create_slack_user rem cfg su s of
            (Inr created_user_id, s1) \<Rightarrow> finish created_user_id s1
          | (Inl (BadUsernameError b), s1) \<Rightarrow>
              (let short_username = split_first CHR ''@'' (email u);
                   new_su = fill_scim_user short_username (name u) (email u) (title u)
                              (location u) (section_of u)
               in and_then (log_line WARNING (''Full name is too long for user '' @ email u
                              @ ''. Using short name '' @ quoted short_username @ ''.''))
                    (\<lambda>_. and_then (create_slack_user rem cfg new_su) finish) s1)
          | (Inl e, s1) \<Rightarrow>
              and_then (log_line EXCEPTION (''Failed to create user '' @ email u @ '': '' @ exc_str e))
                (\<lambda>_. raises e) s1))"

text \<open>
  \<open>Workspace\<close>: its module is not among the sources; it is imported next to \<open>User\<close> and
  \<open>Channel\<close>, and only the \<open>name\<close> field of \<open>BaseSlackModel\<close> is read here.
\<close>

record workspace =
  ws_slack_id :: "string option"
  ws_name :: string

text \<open>
  \<open>verify_workspace_exists_in_slack\<close>: the id of the first listed team with the
  workspace's name, \<open>None\<close> when the loop ends without one.
\<close>

definition verify_workspace_exists_in_slack :: "remote \<Rightarrow> settings \<Rightarrow> workspace \<Rightarrow> string option action" where
  "verify_workspace_exists_in_slack rem cfg w =
     and_then (debounce cfg ''admin_teams_list'' 50) (\<lambda>_.
     and_then (remote_call AdminTeamsList (admin_teams_list rem))
       (\<lambda>response.
          if \<not> tl_ok response then raises (PlainException ''Failed to list teams in Slack'')
          else returns (map_option team_id (find (\<lambda>t. team_name t = ws_name w) (tl_teams response)))))"

text \<open>The domain that \<open>create_workspace_in_slack\<close> derives from the workspace's name.\<close>

definition domain_of :: "string \<Rightarrow> string" where
  "domain_of nm = re_sub_ws_hyphen (lstrip (lower nm)) @ ''-misr''"

text \<open>The part of the function after the lookup, from the debounce of the creation on.\<close>

definition create_new_workspace :: "remote \<Rightarrow> settings \<Rightarrow> workspace \<Rightarrow> string action" where
  "create_new_workspace rem cfg w =
     and_then (debounce cfg ''admin_teams_create'' 1) (\<lambda>_.
     let domain = domain_of (ws_name w) in
     if length domain > 21
     then raises (ValueError (''Domain name '' @ quoted domain @ '' is too long (''
                               @ str_nat (length domain) @ '' characters)''))
     else
       and_then (remote_call (AdminTeamsCreate (ws_name w) domain)
                   (admin_teams_create rem (ws_name w) domain))
         (\<lambda>response.
            if \<not> tc_ok response then raises (PlainException ''Failed to create workspace in Slack'')
            else and_then (log_line INFO (''Created <property object> in slack for '' @ ws_name w
                             @ '' with id '' @ tc_team response))
                   (\<lambda>_. returns (tc_team response))))"

text \<open>
  \<open>create_workspace_in_slack\<close>. The lookup of an existing workspace comes first, and
  \<open>if existing_workspace_id\<close> takes a non-empty id. \<open>Exception(...)\<close> is raised for a
  response that is not ok. \<open>_log_creation\<close> reads \<open>of_type\<close> from the class, which
  formats as the property object.
\<close>

definition create_workspace_in_slack :: "remote \<Rightarrow> settings \<Rightarrow> workspace \<Rightarrow> string action" where
  "create_workspace_in_slack rem cfg w =
     and_then (verify_workspace_exists_in_slack rem cfg w) (\<lambda>existing_workspace_id.
       case existing_workspace_id of
         Some wid \<Rightarrow>
           if wid \<noteq> [] then
             and_then (log_line INFO (''Workspace '' @ ws_name w
                         @ '' already exists in Slack, slack_id='' @ wid))
               (\<lambda>_. returns wid)
           else create_new_workspace rem cfg w
       | None \<Rightarrow> create_new_workspace rem cfg w)"

section \<open>The instruction file\<close>

text \<open>
  Files are bytes by name (a \<open>char\<close> is a byte there); a name without bytes cannot be
  opened. \<open>open(filename, "r")\<close> names no encoding: the bytes are decoded as UTF-8, the
  encoding of the instruction file and the default of the platform, and reading bytes
  that are not UTF-8 raises \<open>UnicodeDecodeError\<close>. \<open>utf8_scan\<close> reads a byte with the
  number of continuation bytes still due and the range allowed for the next one: no
  overlong form, no surrogate, nothing above U+10FFFF.
\<close>

type_synonym filesystem = "string \<rightharpoonup> string"

fun utf8_scan :: "nat \<Rightarrow> nat \<Rightarrow> nat \<Rightarrow> nat list \<Rightarrow> bool" where
  "utf8_scan pending lo hi [] = (pending = 0)"
| "utf8_scan 0 lo hi (b # bs) =
     (if b < 0x80 then utf8_scan 0 0x80 0xBF bs
      else if 0xC2 \<le> b \<and> b \<le> 0xDF then utf8_scan (Suc 0) 0x80 0xBF bs
      else if b = 0xE0 then utf8_scan (Suc (Suc 0)) 0xA0 0xBF bs
      else if b = 0xED then utf8_scan (Suc (Suc 0)) 0x80 0x9F bs
      else if 0xE1 \<le> b \<and> b \<le> 0xEF then utf8_scan (Suc (Suc 0)) 0x80 0xBF bs
      else if b = 0xF0 then utf8_scan (Suc (Suc (Suc 0))) 0x90 0xBF bs
      else if b = 0xF4 then utf8_scan (Suc (Suc (Suc 0))) 0x80 0x8F bs
      else if 0xF1 \<le> b \<and> b \<le> 0xF3 then utf8_scan (Suc (Suc (Suc 0))) 0x80 0xBF bs
      else False)"
| "utf8_scan (Suc k) lo hi (b # bs) = (lo \<le> b \<and> b \<le> hi \<and> utf8_scan k 0x80 0xBF bs)"

definition utf8_valid :: "string \<Rightarrow> bool" where
  "utf8_valid bytes = utf8_scan 0 0x80 0xBF (map of_char bytes)"

text \<open>
  Iterating over a file opened in text mode yields its lines, a line ending at \<open>\n\<close>,
  \<open>\r\<close> or \<open>\r\n\<close> (each read as \<open>\n\<close>), the last line also at the end of the text. In
  UTF-8 the bytes 0x0A and 0x0D are these two characters and part of no other, so the
  lines of the decoded text are cut where the lines of the bytes are.
\<close>

fun file_lines :: "string \<Rightarrow> string \<Rightarrow> string list" where
  "file_lines cur [] = (if cur = [] then [] else [cur])"
| "file_lines cur [c] =
     (if c = CHR 0x0A \<or> c = CHR 0x0D then [cur @ [CHR 0x0A]] else [cur @ [c]])"
| "file_lines cur (c # d # cs) =
     (if c = CHR 0x0D \<and> d = CHR 0x0A then (cur @ [CHR 0x0A]) # file_lines [] cs
      else if c = CHR 0x0A \<or> c = CHR 0x0D then (cur @ [CHR 0x0A]) # file_lines [] (d # cs)
      else file_lines (cur @ [c]) (d # cs))"

record csv_instruction_manager =
  filename :: string
  total_instructions :: int

text \<open>
  \<open>CSVInstructionManager.__init__\<close>: \<open>sum(1 for _ in file)\<close> counts the lines, and one
  is subtracted. The count reads the whole file, so bytes that do not decode raise
  wherever they are.
\<close>

definition CSVInstructionManager_init :: "filesystem \<Rightarrow> string \<Rightarrow> py_exception + csv_instruction_manager" where
  "CSVInstructionManager_init fs fname =
     (case fs fname of
        None \<Rightarrow> Inl (OSError fname)
      | Some bytes \<Rightarrow>
          if utf8_valid bytes
          then Inr \<lparr>filename = fname,
                    total_instructions = int (length (file_lines [] bytes)) - 1\<rparr>
          else Inl (UnicodeDecodeError fname))"

text \<open>
  \<open>csv.DictReader\<close> over the rows of cells that \<open>csv.reader\<close> gives (the reading of the
  file into rows of cells is the library's and is a parameter below). The first row is the
  header; empty rows are skipped; a row is zipped with the header, a later duplicate of
  a header name winning; cells beyond the header go under the key \<open>None\<close> as a list, and
  header names beyond the row get the value \<open>None\<close>.
\<close>

datatype cell = Cell string | Missing | Rest "string list"

type_synonym csv_row = "string option \<rightharpoonup> cell"



text \<open>
  The instruction shapes of \<open>data_models/instruction_entries.py\<close>: the fields of a model
  class in order, each a string or a member of an enumeration, required or with the
  default \<open>None\<close>. The members of \<open>WorkspaceRole\<close> are declared in a module that is not
  among the sources; their values are a parameter.
\<close>

datatype field_type = TStr | TEnum "string list"

record field_spec =
  field_name :: string
  field_type :: field_type
  required :: bool

definition str_field :: "string \<Rightarrow> field_spec" where
  "str_field n = \<lparr>field_name = n, field_type = TStr, required = True\<rparr>"

definition str_field_default_None :: "string \<Rightarrow> field_spec" where
  "str_field_default_None n = \<lparr>field_name = n, field_type = TStr, required = False\<rparr>"

definition AddUserInstructionEntry :: "field_spec list" where
  "AddUserInstructionEntry =
     map str_field [''workspace_name'', ''workspace_slack_id'', ''channel_name'',
                    ''channel_slack_id'', ''user_email'', ''user_slack_id'']"

definition AssignAdminOwnerInstructionEntry :: "string list \<Rightarrow> field_spec list" where
  "AssignAdminOwnerInstructionEntry workspace_roles =
     map str_field [''workspace_name'', ''workspace_slack_id'', ''user_email'', ''user_slack_id'']
     @ [\<lparr>field_name = ''role'', field_type = TEnum workspace_roles, required = True\<rparr>]"

definition DeactivateRemoveUserInstructionEntry :: "field_spec list" where
  "DeactivateRemoveUserInstructionEntry = map str_field [''user_email'', ''user_slack_id'']"

definition InviteNewUserInstructionEntry :: "field_spec list" where
  "InviteNewUserInstructionEntry =
     map str_field [''workspace_name'', ''workspace_slack_id'', ''channel_name'',
                    ''channel_slack_id'', ''user_email'', ''user_name'']
     @ map str_field_default_None [''title'', ''section'', ''location'']"

definition ChangeUserEmailInstructionEntry :: "field_spec list" where
  "ChangeUserEmailInstructionEntry = map str_field [''current_email'', ''new_email'']"

definition AbstractUserInstructionEntry :: "field_spec list" where
  "AbstractUserInstructionEntry = map str_field [''user_email'']"


text \<open>
  \<open>instructions_type(**row)\<close>. A key that is not a string (the \<open>None\<close> key of surplus
  cells) cannot be a keyword: \<open>TypeError\<close>. Otherwise the model library validates each
  declared field: an absent required field fails, an absent field with a default takes
  it, a string is accepted for a string field and for an enumeration field when it is a
  member, and \<open>None\<close> is accepted for neither. All failures are reported together in one
  \<open>ValidationError\<close>. The classes declare no configuration, so keywords that name no
  field are ignored, which is the library's default.
\<close>

definition validate_field :: "csv_row \<Rightarrow> field_spec \<Rightarrow> string + (string \<times> pyval)" where
  "validate_field row f =
     (case row (Some (field_name f)) of
        None \<Rightarrow> if required f then Inl (field_name f) else Inr (field_name f, PNone)
      | Some (Cell v) \<Rightarrow>
          (case field_type f of
             TStr \<Rightarrow> Inr (field_name f, PStr v)
           | TEnum members \<Rightarrow>
               if v \<in> set members then Inr (field_name f, PStr v) else Inl (field_name f))
      | Some Missing \<Rightarrow> Inl (field_name f)
      | Some (Rest _) \<Rightarrow> Inl (field_name f))"

fun failed_fields :: "(string + (string \<times> pyval)) list \<Rightarrow> string list" where
  "failed_fields [] = []"
| "failed_fields (Inl n # rs) = n # failed_fields rs"
| "failed_fields (Inr _ # rs) = failed_fields rs"

fun valid_fields :: "(string + (string \<times> pyval)) list \<Rightarrow> pydict" where
  "valid_fields [] = []"
| "valid_fields (Inl _ # rs) = valid_fields rs"
| "valid_fields (Inr kv # rs) = kv # valid_fields rs"

definition construct :: "field_spec list \<Rightarrow> csv_row \<Rightarrow> py_exception + pydict" where
  "construct instructions_type row =
     (if row None \<noteq> None then Inl (TypeError ''keywords must be strings'')
      else (let results = map (validate_field row) instructions_type
            in if failed_fields results \<noteq> []
               then Inl (ValidationError (concat (map (\<lambda>n. n @ ''; '') (failed_fields results))))
               else Inr (valid_fields results)))"






section \<open>The photo-update processor\<close>




section \<open>Concrete inputs\<close>

text \<open>
  A remote side on which every call raises, to be updated with the responses of a
  scenario; a manager that has made no call yet; settings without debounce logging.
\<close>

definition offline_remote :: remote where
  "offline_remote =
     \<lparr>scim_search_users = (\<lambda>_. Inl (SdkError [])),
      scim_patch_user = (\<lambda>_ _. Inl (SdkError [])),
      scim_create_user = (\<lambda>_. Inl (SdkError [])),
      admin_teams_list = Inl (SdkError []),
      admin_teams_create = (\<lambda>_ _. Inl (SdkError []))\<rparr>"

definition fresh :: manager where
  "fresh = \<lparr>clock = 0, debounce_data = Map.empty, trace = []\<rparr>"

definition quiet :: settings where
  "quiet = \<lparr>LOG_DEBOUNCING = False\<rparr>"

definition alice :: user where
  "alice = \<lparr>slack_id = None, name = ''Alice Example'', email = ''alice@x.org'', title = None,
            section_of = None, extention = PNone, location = None\<rparr>"







section \<open>Properties of the debounce step\<close>

lemma sleeps_append: "sleeps (xs @ ys) = sleeps xs @ sleeps ys"
  by (induction xs rule: sleeps.induct) simp_all

lemma debounce_first_call:
  assumes "debounce_data s k = None"
  shows "debounce cfg k r s = (Inr (), s\<lparr>debounce_data := (debounce_data s)(k \<mapsto> clock s)\<rparr>)"
  using assms by (simp add: debounce_def)

lemma debounce_later_call:
  assumes "r \<noteq> 0" and "debounce_data s k = Some last_call"
  shows "\<exists>s'. debounce cfg k r s = (Inr (), s')
            \<and> debounce_data s' = (debounce_data s)(k \<mapsto> clock s)
            \<and> (clock s - last_call < 60 / of_int r \<longrightarrow>
                  sleeps (trace s') = sleeps (trace s) @ [60 / of_int r - (clock s - last_call) + 1]
                  \<and> clock s' = clock s + (60 / of_int r - (clock s - last_call) + 1))
            \<and> (60 / of_int r \<le> clock s - last_call \<longrightarrow>
                  sleeps (trace s') = sleeps (trace s) \<and> clock s' = clock s)"
  using assms
  by (auto simp: debounce_def Let_def asyncio_sleep_def emit_def sleeps_append max_def)

text \<open>
  C1. For a key \<open>k\<close> and a rate limit \<open>r\<close> (not zero, as every rate in the source is).
  The first call for \<open>k\<close>, with no timestamp in the table, returns without sleeping and
  records its time. A second call made \<open>elapsed\<close> seconds after that recorded time
  sleeps once, for exactly \<open>(60 / r - elapsed) + 1\<close> seconds, when \<open>elapsed < 60 / r\<close>,
  and returns without sleeping when \<open>elapsed \<ge> 60 / r\<close>. The same holds for any call
  that finds a timestamp in the table, with the time elapsed since that timestamp.
\<close>

theorem debounce_wait:
  assumes "r \<noteq> 0"
  shows "(debounce_data s k = None \<longrightarrow>
            (\<exists>s1. debounce cfg k r s = (Inr (), s1)
                 \<and> sleeps (trace s1) = sleeps (trace s) \<and> clock s1 = clock s
                 \<and> debounce_data s1 = (debounce_data s)(k \<mapsto> clock s)
                 \<and> (\<forall>elapsed. \<exists>s2. debounce cfg k r (advance elapsed s1) = (Inr (), s2)
                       \<and> debounce_data s2 k = Some (clock s + elapsed)
                       \<and> (elapsed < 60 / of_int r \<longrightarrow>
                             sleeps (trace s2) = sleeps (trace s) @ [60 / of_int r - elapsed + 1]
                             \<and> clock s2 = clock s + elapsed + (60 / of_int r - elapsed + 1))
                       \<and> (60 / of_int r \<le> elapsed \<longrightarrow>
                             sleeps (trace s2) = sleeps (trace s)
                             \<and> clock s2 = clock s + elapsed))))
       \<and> (\<forall>last_call. debounce_data s k = Some last_call \<longrightarrow>
            (\<exists>s'. debounce cfg k r s = (Inr (), s')
                 \<and> debounce_data s' = (debounce_data s)(k \<mapsto> clock s)
                 \<and> (clock s - last_call < 60 / of_int r \<longrightarrow>
                       sleeps (trace s') = sleeps (trace s) @ [60 / of_int r - (clock s - last_call) + 1]
                       \<and> clock s' = clock s + (60 / of_int r - (clock s - last_call) + 1))
                 \<and> (60 / of_int r \<le> clock s - last_call \<longrightarrow>
                       sleeps (trace s') = sleeps (trace s) \<and> clock s' = clock s)))"
proof (intro conjI impI allI)
  assume none: "debounce_data s k = None"
  let ?s1 = "s\<lparr>debounce_data := (debounce_data s)(k \<mapsto> clock s)\<rparr>"
  have second: "\<exists>s2. debounce cfg k r (advance elapsed ?s1) = (Inr (), s2)
                       \<and> debounce_data s2 k = Some (clock s + elapsed)
                       \<and> (elapsed < 60 / of_int r \<longrightarrow>
                             sleeps (trace s2) = sleeps (trace s) @ [60 / of_int r - elapsed + 1]
                             \<and> clock s2 = clock s + elapsed + (60 / of_int r - elapsed + 1))
                       \<and> (60 / of_int r \<le> elapsed \<longrightarrow>
                             sleeps (trace s2) = sleeps (trace s)
                             \<and> clock s2 = clock s + elapsed)" for elapsed
    using debounce_later_call [OF assms, of "advance elapsed ?s1" k "clock s" cfg]
    by (auto simp: advance_def)
  show "\<exists>s1. debounce cfg k r s = (Inr (), s1)
                 \<and> sleeps (trace s1) = sleeps (trace s) \<and> clock s1 = clock s
                 \<and> debounce_data s1 = (debounce_data s)(k \<mapsto> clock s)
                 \<and> (\<forall>elapsed. \<exists>s2. debounce cfg k r (advance elapsed s1) = (Inr (), s2)
                       \<and> debounce_data s2 k = Some (clock s + elapsed)
                       \<and> (elapsed < 60 / of_int r \<longrightarrow>
                             sleeps (trace s2) = sleeps (trace s) @ [60 / of_int r - elapsed + 1]
                             \<and> clock s2 = clock s + elapsed + (60 / of_int r - elapsed + 1))
                       \<and> (60 / of_int r \<le> elapsed \<longrightarrow>
                             sleeps (trace s2) = sleeps (trace s)
                             \<and> clock s2 = clock s + elapsed))"
    using debounce_first_call [OF none, of cfg r] second
    by (intro exI [of _ ?s1]) simp
next
  fix last_call assume "debounce_data s k = Some last_call"
  from debounce_later_call [OF assms this, of cfg]
  show "\<exists>s'. debounce cfg k r s = (Inr (), s')
                 \<and> debounce_data s' = (debounce_data s)(k \<mapsto> clock s)
                 \<and> (clock s - last_call < 60 / of_int r \<longrightarrow>
                       sleeps (trace s') = sleeps (trace s) @ [60 / of_int r - (clock s - last_call) + 1]
                       \<and> clock s' = clock s + (60 / of_int r - (clock s - last_call) + 1))
                 \<and> (60 / of_int r \<le> clock s - last_call \<longrightarrow>
                       sleeps (trace s') = sleeps (trace s) \<and> clock s' = clock s)" .
qed

text \<open>Three calls of a fresh manager: the first, one a second later, one five seconds later.\<close>

theorem debounce_wait_witness:
  "(20::int) \<noteq> 0 \<and> debounce_data fresh ''patch_user'' = None \<and>
   (\<exists>s1 s2 s3. debounce quiet ''patch_user'' 20 fresh = (Inr (), s1)
       \<and> sleeps (trace s1) = [] \<and> debounce_data s1 ''patch_user'' = Some 0
       \<and> debounce quiet ''patch_user'' 20 (advance 1 s1) = (Inr (), s2)
       \<and> sleeps (trace s2) = [3] \<and> clock s2 = 4
       \<and> debounce quiet ''patch_user'' 20 (advance 5 s1) = (Inr (), s3)
       \<and> sleeps (trace s3) = [] \<and> clock s3 = 5)"
proof -
  have r: "(20::int) \<noteq> 0" by simp
  have n: "debounce_data fresh ''patch_user'' = None" by (simp add: fresh_def)
  from debounce_wait [OF r, of fresh "''patch_user''" quiet] n
  obtain s1 where s1: "debounce quiet ''patch_user'' 20 fresh = (Inr (), s1)"
     "sleeps (trace s1) = sleeps (trace fresh)" "clock s1 = clock fresh"
     "debounce_data s1 = (debounce_data fresh)(''patch_user'' \<mapsto> clock fresh)"
     and nxt: "\<And>elapsed. \<exists>s2. debounce quiet ''patch_user'' 20 (advance elapsed s1) = (Inr (), s2)
                       \<and> debounce_data s2 ''patch_user'' = Some (clock fresh + elapsed)
                       \<and> (elapsed < 60 / of_int 20 \<longrightarrow>
                             sleeps (trace s2) = sleeps (trace fresh) @ [60 / of_int 20 - elapsed + 1]
                             \<and> clock s2 = clock fresh + elapsed + (60 / of_int 20 - elapsed + 1))
                       \<and> (60 / of_int 20 \<le> elapsed \<longrightarrow>
                             sleeps (trace s2) = sleeps (trace fresh)
                             \<and> clock s2 = clock fresh + elapsed)"
    by blast
  from nxt [of 1] obtain s2 where s2: "debounce quiet ''patch_user'' 20 (advance 1 s1) = (Inr (), s2)"
      "sleeps (trace s2) = [3]" "clock s2 = 4"
    by (auto simp: fresh_def)
  from nxt [of 5] obtain s3 where s3: "debounce quiet ''patch_user'' 20 (advance 5 s1) = (Inr (), s3)"
      "sleeps (trace s3) = []" "clock s3 = 5"
    by (auto simp: fresh_def)
  from s1 have "sleeps (trace s1) = []" "debounce_data s1 ''patch_user'' = Some 0"
    by (simp_all add: fresh_def)
  with r n s1(1) s2 s3 show ?thesis by blast
qed

text \<open>
  C2. The timestamp stored for a key that had one is \<open>current_time\<close>, read before the
  sleep. With a rate of 20 per minute (3 seconds apart): a first call at time 0, a
  second call at time 1 sleeps 3 seconds and proceeds at time 4, yet records 1; a third
  call at time 4.5 then finds 3.5 seconds elapsed and proceeds at once, half a second
  after the second one did.
\<close>

theorem debounce_stores_time_before_sleep:
  "\<exists>s1 s2 s3.
      debounce \<lparr>LOG_DEBOUNCING = False\<rparr> ''patch_user'' 20
        \<lparr>clock = 0, debounce_data = Map.empty, trace = []\<rparr> = (Inr (), s1)
    \<and> debounce \<lparr>LOG_DEBOUNCING = False\<rparr> ''patch_user'' 20 (advance 1 s1) = (Inr (), s2)
    \<and> clock s2 = 4 \<and> debounce_data s2 ''patch_user'' = Some 1 \<and> trace s2 = [Sleep 3]
    \<and> debounce \<lparr>LOG_DEBOUNCING = False\<rparr> ''patch_user'' 20 (advance (1/2) s2) = (Inr (), s3)
    \<and> clock s3 = 9/2 \<and> trace s3 = [Sleep 3]"
  by (simp add: debounce_def Let_def asyncio_sleep_def emit_def advance_def)

lemma debounce_returns: "r \<noteq> 0 \<Longrightarrow> fst (debounce cfg k r s) = Inr ()"
  by (simp add: debounce_def Let_def split: option.splits)

lemma and_then_debounce:
  "r \<noteq> 0 \<Longrightarrow> and_then (debounce cfg k r) f s = f () (snd (debounce cfg k r s))"
  using debounce_returns [of r cfg k s]
  by (cases "debounce cfg k r s") (simp add: and_then_def)

section \<open>Properties of the user search\<close>

lemma and_then_remote_call:
  "and_then (remote_call ev outcome) f s =
     (case outcome of Inl e \<Rightarrow> (Inl e, emit ev s) | Inr x \<Rightarrow> f x (emit ev s))"
  by (simp add: and_then_def remote_call_def split: sum.splits)

lemma search_user_unfold:
  "search_user rem cfg user_email s =
     (let s1 = emit (ScimSearchUsers (''email eq '' @ user_email))
                 (snd (debounce cfg ''scim_search_users'' 20 s))
      in case scim_search_users rem (''email eq '' @ user_email) of
           Inl e \<Rightarrow> (Inl e, s1)
         | Inr response \<Rightarrow>
             if sr_status_code response \<noteq> 200
             then (Inl (TypeError ''exceptions must derive from BaseException''), s1)
             else (case sr_resources response of
                     None \<Rightarrow> (Inr None, s1)
                   | Some existing_users \<Rightarrow>
                       if existing_users = [] then (Inr None, s1)
                       else if length existing_users > 1
                       then (Inl (MultipleUsersWithSameEmailError
                                   (''Multiple users found with email '' @ user_email)), s1)
                       else (Inr (Some (hd existing_users)), s1)))"
  by (simp add: search_user_def and_then_debounce and_then_remote_call Let_def
        returns_def raises_def split: sum.splits option.splits)

text \<open>
  C3. When the remote search returns a response with status 200, \<open>search_user\<close>
  returns \<open>None\<close> for no resources (a missing or an empty list), the record for exactly
  one, and raises \<open>MultipleUsersWithSameEmailError\<close> for two or more.
\<close>

theorem search_user_by_match_count:
  assumes "scim_search_users rem (''email eq '' @ user_email) = Inr response"
      and "sr_status_code response = 200"
  shows "(sr_resources response = None \<or> sr_resources response = Some [] \<longrightarrow>
            fst (search_user rem cfg user_email s) = Inr None)
       \<and> (\<forall>u. sr_resources response = Some [u] \<longrightarrow>
            fst (search_user rem cfg user_email s) = Inr (Some u))
       \<and> (\<forall>us. sr_resources response = Some us \<and> 2 \<le> length us \<longrightarrow>
            fst (search_user rem cfg user_email s)
              = Inl (MultipleUsersWithSameEmailError
                       (''Multiple users found with email '' @ user_email)))"
  using assms by (auto simp: search_user_unfold Let_def)

theorem search_user_by_match_count_witness:
  "fst (search_user
          (offline_remote\<lparr>scim_search_users :=
             (\<lambda>_. Inr \<lparr>sr_status_code = 200,
                        sr_resources = Some [[(''id'', PStr ''U1'')], [(''id'', PStr ''U2'')]]\<rparr>)\<rparr>)
          quiet ''a@x.org'' fresh)
     = Inl (MultipleUsersWithSameEmailError ''Multiple users found with email a@x.org'')"
  using search_user_by_match_count
          [of "offline_remote\<lparr>scim_search_users :=
             (\<lambda>_. Inr \<lparr>sr_status_code = 200,
                        sr_resources = Some [[(''id'', PStr ''U1'')], [(''id'', PStr ''U2'')]]\<rparr>)\<rparr>"
              "''a@x.org''"
              "\<lparr>sr_status_code = 200,
                        sr_resources = Some [[(''id'', PStr ''U1'')], [(''id'', PStr ''U2'')]]\<rparr>"
              quiet fresh]
  by simp

text \<open>
  C8. When the remote search returns a response with another status than 200,
  \<open>search_user\<close> does not go on to an empty result: the \<open>raise\<close> of a plain string
  raises \<open>TypeError\<close>, which leaves the function.
\<close>

theorem search_user_non_200_raises:
  assumes "scim_search_users rem (''email eq '' @ user_email) = Inr response"
      and "sr_status_code response \<noteq> 200"
  shows "fst (search_user rem cfg user_email s)
           = Inl (TypeError ''exceptions must derive from BaseException'')"
  using assms by (simp add: search_user_unfold Let_def)

theorem search_user_non_200_raises_witness:
  "fst (search_user
          (offline_remote\<lparr>scim_search_users :=
             (\<lambda>_. Inr \<lparr>sr_status_code = 500, sr_resources = None\<rparr>)\<rparr>)
          quiet ''a@x.org'' fresh)
     = Inl (TypeError ''exceptions must derive from BaseException'')"
  using search_user_non_200_raises
          [of "offline_remote\<lparr>scim_search_users :=
                 (\<lambda>_. Inr \<lparr>sr_status_code = 500, sr_resources = None\<rparr>)\<rparr>"
              "''a@x.org''" "\<lparr>sr_status_code = 500, sr_resources = None\<rparr>" quiet fresh]
  by simp

text \<open>With status 500 the result is not the absent one.\<close>

theorem search_user_non_200_counterexample:
  "fst (search_user
          (offline_remote\<lparr>scim_search_users :=
             (\<lambda>_. Inr \<lparr>sr_status_code = 500, sr_resources = None\<rparr>)\<rparr>)
          quiet ''a@x.org'' fresh) \<noteq> Inr None"
  by (simp add: search_user_unfold Let_def)

text \<open>
  \<open>verify_deactivated_user_email\<close> on a single match that has both keys: the error for
  an active user, the id otherwise.
\<close>

lemma verify_deactivated_single_match:
  assumes "scim_search_users rem (''email eq '' @ user_email) = Inr response"
      and "sr_status_code response = 200"
      and "sr_resources response = Some [u]"
      and "map_of u ''active'' = Some a"
      and "map_of u ''id'' = Some i"
  shows "fst (verify_deactivated_user_email rem cfg user_email s)
           = (if truthy a then Inl UserIsActiveError else Inr i)"
proof -
  from assms(4) have "u \<noteq> []" by auto
  with assms show ?thesis
    by (simp add: verify_deactivated_user_email_def and_then_def search_user_unfold Let_def
          raises_def lift_def getitem_def)
qed

text \<open>
  C7. With no match, \<open>user_data\<close> is \<open>None\<close>: the test of \<open>active\<close> is skipped and
  \<open>user_data["id"]\<close> raises \<open>TypeError\<close>; the function does not return.
\<close>

theorem verify_deactivated_no_match_raises:
  "fst (verify_deactivated_user_email
          (offline_remote\<lparr>scim_search_users :=
             (\<lambda>_. Inr \<lparr>sr_status_code = 200, sr_resources = Some []\<rparr>)\<rparr>)
          quiet ''a@x.org'' fresh)
     = Inl (TypeError (quoted ''NoneType'' @ '' object is not subscriptable''))"
  by (simp add: verify_deactivated_user_email_def and_then_def search_user_unfold Let_def raises_def)


section \<open>Properties of the user creation\<close>

lemma create_slack_user_unfold:
  "create_slack_user rem cfg su s =
     (let s1 = emit (ScimCreateUser su) (snd (debounce cfg ''create_user'' 20 s))
      in case scim_create_user rem su of
           Inl e \<Rightarrow> (Inl e, s1)
         | Inr response \<Rightarrow>
             if cr_status_code response = 201 then (Inr (Some (cr_id response)), s1)
             else if cr_status_code response = 400 \<or> cr_status_code response = 409 then
               (if split_first CHR '' '' (cr_description response)
                     \<in> {''username_invalid'', ''username_too_long'', ''username_taken''}
                then (Inl (BadUsernameError (cr_body response)), s1)
                else (Inr None, s1))
             else (Inl (UnknownSlackUserCreationError (cr_body response)), s1))"
  by (simp add: create_slack_user_def and_then_debounce and_then_remote_call Let_def
        returns_def raises_def split: sum.splits)

text \<open>
  C5. A rejection with status 409 (or 400) whose error type is none of the three
  username ones is neither retried nor raised: \<open>_create_slack_user\<close> returns \<open>None\<close>, and
  \<open>upload_new_single_user\<close> logs a success with the id \<open>None\<close> and returns it.
\<close>

theorem upload_new_single_user_swallows_rejection:
  "\<exists>s'. upload_new_single_user
          (offline_remote\<lparr>scim_create_user :=
             (\<lambda>_. Inr \<lparr>cr_status_code = 409, cr_id = [], cr_description = ''email_taken by another'',
                        cr_body = ''conflict''\<rparr>)\<rparr>)
          quiet alice fresh = (Inr None, s')
        \<and> trace s' =
            [ScimCreateUser \<lparr>userName = ''Alice Example'', displayName = ''Alice Example'',
                             su_email = ''alice@x.org'', su_title = None, su_department = None,
                             su_division = None, su_active = False\<rparr>,
             Log INFO ''User alice@x.org created successfully. Slack ID: None'']"
  by (simp add: upload_new_single_user_def create_slack_user_unfold Let_def alice_def
        fill_scim_user_def strip_def isspace_def split_first_def and_then_def log_line_def
        returns_def emit_def debounce_def fresh_def str_opt_def)


text \<open>
  The other paths: a username rejection is retried once with the local part of the
  email; a rejection of the retry leaves the function without a log line; a failure
  of another status is logged and raised again.
\<close>

lemma upload_new_single_user_retries_with_local_part:
  "\<exists>s'. upload_new_single_user
          (offline_remote\<lparr>scim_create_user :=
             (\<lambda>su. if userName su = ''alice''
                     then Inr \<lparr>cr_status_code = 201, cr_id = ''U7'', cr_description = [], cr_body = []\<rparr>
                     else Inr \<lparr>cr_status_code = 400, cr_id = [],
                               cr_description = ''username_too_long (max 21)'', cr_body = ''bad''\<rparr>)\<rparr>)
          quiet alice fresh = (Inr (Some ''U7''), s')
        \<and> map userName [su. ScimCreateUser su \<leftarrow> trace s'] = [''Alice Example'', ''alice'']"
  by (simp add: upload_new_single_user_def create_slack_user_unfold Let_def alice_def
        fill_scim_user_def strip_def isspace_def split_first_def and_then_def log_line_def
        returns_def emit_def debounce_def fresh_def str_opt_def asyncio_sleep_def quiet_def quoted_def)

lemma upload_new_single_user_second_rejection_propagates:
  "\<exists>s'. upload_new_single_user
          (offline_remote\<lparr>scim_create_user :=
             (\<lambda>su. Inr \<lparr>cr_status_code = 400, cr_id = [],
                         cr_description = ''username_taken'', cr_body = ''bad''\<rparr>)\<rparr>)
          quiet alice fresh = (Inl (BadUsernameError ''bad''), s')
        \<and> map userName [su. ScimCreateUser su \<leftarrow> trace s'] = [''Alice Example'', ''alice'']
        \<and> [m. Log EXCEPTION m \<leftarrow> trace s'] = []"
  by (simp add: upload_new_single_user_def create_slack_user_unfold Let_def alice_def
        fill_scim_user_def strip_def isspace_def split_first_def and_then_def log_line_def
        returns_def emit_def debounce_def fresh_def str_opt_def asyncio_sleep_def quiet_def quoted_def)

lemma upload_new_single_user_unknown_failure_reraised:
  "\<exists>s'. upload_new_single_user
          (offline_remote\<lparr>scim_create_user :=
             (\<lambda>su. Inr \<lparr>cr_status_code = 500, cr_id = [], cr_description = [], cr_body = ''server error''\<rparr>)\<rparr>)
          quiet alice fresh = (Inl (UnknownSlackUserCreationError ''server error''), s')
        \<and> [m. Log EXCEPTION m \<leftarrow> trace s'] = [''Failed to create user alice@x.org: server error'']"
  by (simp add: upload_new_single_user_def create_slack_user_unfold Let_def alice_def
        fill_scim_user_def strip_def isspace_def split_first_def and_then_def log_line_def
        returns_def raises_def emit_def debounce_def fresh_def str_opt_def asyncio_sleep_def quiet_def quoted_def)

section \<open>Properties of the workspace creation\<close>

lemma remote_calls_debounce:
  "remote_calls (trace (snd (debounce cfg k r s))) = remote_calls (trace s)"
  by (simp add: debounce_def Let_def remote_calls_def asyncio_sleep_def emit_def
        split: option.splits)

lemma remote_calls_emit:
  "remote_calls (trace (emit e s)) = remote_calls (trace s) @ (if is_remote_call e then [e] else [])"
  by (simp add: remote_calls_def emit_def)

lemma create_new_workspace_too_long:
  assumes "21 < length (domain_of (ws_name w))"
  shows "create_new_workspace rem cfg w s =
           (Inl (ValueError (''Domain name '' @ quoted (domain_of (ws_name w)) @ '' is too long (''
                               @ str_nat (length (domain_of (ws_name w))) @ '' characters)'')),
            snd (debounce cfg ''admin_teams_create'' 1 s))"
  using assms by (simp add: create_new_workspace_def and_then_debounce Let_def raises_def)

lemma verify_workspace_unfold:
  "verify_workspace_exists_in_slack rem cfg w s =
     (let s1 = emit AdminTeamsList (snd (debounce cfg ''admin_teams_list'' 50 s))
      in case admin_teams_list rem of
           Inl e \<Rightarrow> (Inl e, s1)
         | Inr response \<Rightarrow>
             if \<not> tl_ok response then (Inl (PlainException ''Failed to list teams in Slack''), s1)
             else (Inr (map_option team_id
                          (find (\<lambda>t. team_name t = ws_name w) (tl_teams response))), s1))"
  by (simp add: verify_workspace_exists_in_slack_def and_then_debounce and_then_remote_call
        Let_def returns_def raises_def split: sum.splits)

text \<open>
  C6. For a workspace whose derived domain is longer than 21 characters, the lookup of
  the existing workspaces is the one remote call made, and the creation call is never
  made. When the lookup succeeds and lists no workspace of that name, the function
  raises the domain-too-long \<open>ValueError\<close>; when it lists one with an id, the function
  returns that id.
\<close>

theorem create_workspace_domain_too_long:
  assumes "21 < length (domain_of (ws_name w))"
  shows "remote_calls (trace (snd (create_workspace_in_slack rem cfg w s)))
           = remote_calls (trace s) @ [AdminTeamsList]
       \<and> (\<forall>response. admin_teams_list rem = Inr response \<and> tl_ok response
              \<and> find (\<lambda>t. team_name t = ws_name w) (tl_teams response) = None \<longrightarrow>
            fst (create_workspace_in_slack rem cfg w s)
              = Inl (ValueError (''Domain name '' @ quoted (domain_of (ws_name w))
                                   @ '' is too long ('' @ str_nat (length (domain_of (ws_name w)))
                                   @ '' characters)'')))
       \<and> (\<forall>response t. admin_teams_list rem = Inr response \<and> tl_ok response
              \<and> find (\<lambda>t. team_name t = ws_name w) (tl_teams response) = Some t
              \<and> team_id t \<noteq> [] \<longrightarrow>
            fst (create_workspace_in_slack rem cfg w s) = Inr (team_id t))"
  using assms
  by (auto simp: create_workspace_in_slack_def and_then_def verify_workspace_unfold Let_def
        create_new_workspace_too_long remote_calls_debounce remote_calls_emit log_line_def
        returns_def split: sum.splits option.splits)


lemma domain_of_training:
  "domain_of ''Training ABCDEFGHIJKLMNOP'' = ''training-abcdefghijklmnop-misr''"
  by (simp add: domain_of_def lower_def lower_char_def latin1_upper_def latin1_lower_def lstrip_def isspace_def re_sub_ws_hyphen_def)

lemma length_domain_of_training: "length (domain_of ''Training ABCDEFGHIJKLMNOP'') = 30"
  by (simp add: domain_of_training)

lemma str_nat_30: "str_nat 30 = ''30''"
  by (simp add: str_nat.simps [of 30] str_nat.simps [of 3])

theorem create_workspace_domain_too_long_witness:
  "fst (create_workspace_in_slack
          (offline_remote\<lparr>admin_teams_list := Inr \<lparr>tl_ok = True, tl_teams = []\<rparr>\<rparr>) quiet
          \<lparr>ws_slack_id = None, ws_name = ''Training ABCDEFGHIJKLMNOP''\<rparr> fresh)
     = Inl (ValueError (''Domain name '' @ quoted ''training-abcdefghijklmnop-misr''
                          @ '' is too long (30 characters)''))
   \<and> remote_calls (trace (snd (create_workspace_in_slack
          (offline_remote\<lparr>admin_teams_list := Inr \<lparr>tl_ok = True, tl_teams = []\<rparr>\<rparr>) quiet
          \<lparr>ws_slack_id = None, ws_name = ''Training ABCDEFGHIJKLMNOP''\<rparr> fresh)))
     = [AdminTeamsList]"
  using create_workspace_domain_too_long
          [of "\<lparr>ws_slack_id = None, ws_name = ''Training ABCDEFGHIJKLMNOP''\<rparr>"
              "offline_remote\<lparr>admin_teams_list := Inr \<lparr>tl_ok = True, tl_teams = []\<rparr>\<rparr>"
              quiet fresh]
  apply (simp add: length_domain_of_training str_nat_30 fresh_def remote_calls_def)
  apply (simp add: domain_of_training)
  done

text \<open>
  For the name \<open>Training ABCDEFGHIJKLMNOP\<close> the failure comes after a remote call.
\<close>

theorem create_workspace_calls_remote_before_failing:
  "(\<exists>m. fst (create_workspace_in_slack
          (offline_remote\<lparr>admin_teams_list := Inr \<lparr>tl_ok = True, tl_teams = []\<rparr>\<rparr>) quiet
          \<lparr>ws_slack_id = None, ws_name = ''Training ABCDEFGHIJKLMNOP''\<rparr> fresh) = Inl (ValueError m))
   \<and> remote_calls (trace (snd (create_workspace_in_slack
          (offline_remote\<lparr>admin_teams_list := Inr \<lparr>tl_ok = True, tl_teams = []\<rparr>\<rparr>) quiet
          \<lparr>ws_slack_id = None, ws_name = ''Training ABCDEFGHIJKLMNOP''\<rparr> fresh))) \<noteq> []"
  by (simp add: create_workspace_in_slack_def and_then_def verify_workspace_unfold Let_def
        create_new_workspace_too_long length_domain_of_training remote_calls_debounce
        remote_calls_emit fresh_def)


section \<open>Properties of the instruction file\<close>

lemma file_lines_step:
  "c \<noteq> CHR 0x0A \<Longrightarrow> c \<noteq> CHR 0x0D \<Longrightarrow> file_lines cur (c # xs) = file_lines (cur @ [c]) xs"
  by (cases xs) simp_all

lemma file_lines_prefix:
  "\<forall>c\<in>set h. c \<noteq> CHR 0x0A \<and> c \<noteq> CHR 0x0D \<Longrightarrow> file_lines cur (h @ rest) = file_lines (cur @ h) rest"
  by (induction h arbitrary: cur) (simp_all add: file_lines_step)

lemma file_lines_empty_iff: "file_lines cur content = [] \<longleftrightarrow> cur = [] \<and> content = []"
  by (induction cur content rule: file_lines.induct) simp_all

lemma file_lines_line_end:
  assumes "t = [CHR 0x0A] \<or> t = [CHR 0x0D] \<or> t = [CHR 0x0D, CHR 0x0A]"
      and "t = [CHR 0x0D] \<longrightarrow> rest = [] \<or> hd rest \<noteq> CHR 0x0A"
  shows "file_lines cur (t @ rest) = (cur @ [CHR 0x0A]) # file_lines [] rest"
  using assms by (cases rest) auto

lemma hd_lines_not_newline:
  assumes "\<forall>l\<in>set ls. \<forall>c\<in>set l. c \<noteq> CHR 0x0A \<and> c \<noteq> CHR 0x0D"
      and "\<forall>c\<in>set final. c \<noteq> CHR 0x0A \<and> c \<noteq> CHR 0x0D"
      and "t \<noteq> []" and "hd t \<noteq> CHR 0x0A"
  shows "concat (map (\<lambda>l. l @ t) ls) @ final = [] \<or> hd (concat (map (\<lambda>l. l @ t) ls) @ final) \<noteq> CHR 0x0A"
proof (cases ls)
  case Nil
  then show ?thesis using assms(2) by (cases final) auto
next
  case (Cons l ls')
  then show ?thesis using assms(1,3,4) by (cases l) auto
qed

lemma file_lines_of_lines:
  assumes "t = [CHR 0x0A] \<or> t = [CHR 0x0D] \<or> t = [CHR 0x0D, CHR 0x0A]"
      and "\<forall>l\<in>set ls. \<forall>c\<in>set l. c \<noteq> CHR 0x0A \<and> c \<noteq> CHR 0x0D"
      and "\<forall>c\<in>set final. c \<noteq> CHR 0x0A \<and> c \<noteq> CHR 0x0D"
  shows "file_lines [] (concat (map (\<lambda>l. l @ t) ls) @ final)
           = map (\<lambda>l. l @ [CHR 0x0A]) ls @ (if final = [] then [] else [final])"
  using assms(2)
proof (induction ls)
  case Nil
  have "file_lines [] (final @ []) = file_lines ([] @ final) []"
    by (rule file_lines_prefix [OF assms(3)])
  then have "file_lines [] final = (if final = [] then [] else [final])"
    by simp
  then show ?case by simp
next
  case (Cons l ls)
  let ?rest = "concat (map (\<lambda>l. l @ t) ls) @ final"
  have clean: "\<forall>c\<in>set l. c \<noteq> CHR 0x0A \<and> c \<noteq> CHR 0x0D"
    using Cons.prems by simp
  have cleans: "\<forall>l\<in>set ls. \<forall>c\<in>set l. c \<noteq> CHR 0x0A \<and> c \<noteq> CHR 0x0D"
    using Cons.prems by simp
  have ih: "file_lines [] ?rest = map (\<lambda>l. l @ [CHR 0x0A]) ls @ (if final = [] then [] else [final])"
    by (rule Cons.IH [OF cleans])
  have rest_ok: "t = [CHR 0x0D] \<longrightarrow> ?rest = [] \<or> hd ?rest \<noteq> CHR 0x0A"
  proof
    assume t: "t = [CHR 0x0D]"
    have "t \<noteq> []" "hd t \<noteq> CHR 0x0A" using t by simp_all
    from hd_lines_not_newline [OF cleans assms(3) this]
    show "?rest = [] \<or> hd ?rest \<noteq> CHR 0x0A" .
  qed
  have a: "file_lines [] (l @ (t @ ?rest)) = file_lines ([] @ l) (t @ ?rest)"
    by (rule file_lines_prefix [OF clean])
  have b: "file_lines l (t @ ?rest) = (l @ [CHR 0x0A]) # file_lines [] ?rest"
    by (rule file_lines_line_end [OF assms(1) rest_ok])
  have c: "concat (map (\<lambda>l. l @ t) (l # ls)) @ final = l @ (t @ ?rest)"
    by simp
  have "file_lines [] (concat (map (\<lambda>l. l @ t) (l # ls)) @ final)
          = (l @ [CHR 0x0A]) # file_lines [] ?rest"
    unfolding c using a b by simp
  then show ?case unfolding ih by simp
qed

text \<open>
  C10. The constructor fails when the file cannot be opened and when its bytes do not
  decode; otherwise it succeeds and \<open>total_instructions\<close> is the number of lines minus
  one, with no lower bound other than \<open>-1\<close>, which it is for the empty file and only for
  it. The number of lines is stated from the file's content: for lines without a line
  end in them, each followed by the same line end, and a last part without one, it is
  the number of those lines, and one more when the last part is not empty. So a file
  of only a header line gives \<open>0\<close>.
\<close>

theorem total_instructions_is_lines_minus_one:
  "(fs fname = None \<longrightarrow> CSVInstructionManager_init fs fname = Inl (OSError fname))
   \<and> (\<forall>bytes. fs fname = Some bytes \<longrightarrow>
        (\<not> utf8_valid bytes \<longrightarrow>
           CSVInstructionManager_init fs fname = Inl (UnicodeDecodeError fname))
      \<and> (utf8_valid bytes \<longrightarrow>
           (\<exists>m. CSVInstructionManager_init fs fname = Inr m \<and> filename m = fname
               \<and> (total_instructions m = - 1 \<longleftrightarrow> bytes = [])
               \<and> - 1 \<le> total_instructions m
               \<and> (\<forall>t ls final.
                     (t = [CHR 0x0A] \<or> t = [CHR 0x0D] \<or> t = [CHR 0x0D, CHR 0x0A])
                     \<and> (\<forall>l\<in>set ls. \<forall>c\<in>set l. c \<noteq> CHR 0x0A \<and> c \<noteq> CHR 0x0D)
                     \<and> (\<forall>c\<in>set final. c \<noteq> CHR 0x0A \<and> c \<noteq> CHR 0x0D)
                     \<and> bytes = concat (map (\<lambda>l. l @ t) ls) @ final \<longrightarrow>
                     total_instructions m
                       = int (length ls) + (if final = [] then 0 else 1) - 1))))"
proof (intro conjI allI impI)
  assume "fs fname = None"
  then show "CSVInstructionManager_init fs fname = Inl (OSError fname)"
    by (simp add: CSVInstructionManager_init_def)
next
  fix bytes assume "fs fname = Some bytes" "\<not> utf8_valid bytes"
  then show "CSVInstructionManager_init fs fname = Inl (UnicodeDecodeError fname)"
    by (simp add: CSVInstructionManager_init_def)
next
  fix bytes assume b: "fs fname = Some bytes" and v: "utf8_valid bytes"
  let ?m = "\<lparr>filename = fname, total_instructions = int (length (file_lines [] bytes)) - 1\<rparr>"
  have 1: "CSVInstructionManager_init fs fname = Inr ?m"
    using b v by (simp add: CSVInstructionManager_init_def)
  have 2: "total_instructions ?m = - 1 \<longleftrightarrow> bytes = []"
    using file_lines_empty_iff [of "[]" bytes] by auto
  have 3: "total_instructions ?m = int (length ls) + (if final = [] then 0 else 1) - 1"
    if "t = [CHR 0x0A] \<or> t = [CHR 0x0D] \<or> t = [CHR 0x0D, CHR 0x0A]"
       "\<forall>l\<in>set ls. \<forall>c\<in>set l. c \<noteq> CHR 0x0A \<and> c \<noteq> CHR 0x0D"
       "\<forall>c\<in>set final. c \<noteq> CHR 0x0A \<and> c \<noteq> CHR 0x0D"
       "bytes = concat (map (\<lambda>l. l @ t) ls) @ final" for t ls final
  proof -
    from file_lines_of_lines [OF that(1) that(2) that(3)] that(4) show ?thesis by simp
  qed
  show "\<exists>m. CSVInstructionManager_init fs fname = Inr m \<and> filename m = fname
               \<and> (total_instructions m = - 1 \<longleftrightarrow> bytes = [])
               \<and> - 1 \<le> total_instructions m
               \<and> (\<forall>t ls final.
                     (t = [CHR 0x0A] \<or> t = [CHR 0x0D] \<or> t = [CHR 0x0D, CHR 0x0A])
                     \<and> (\<forall>l\<in>set ls. \<forall>c\<in>set l. c \<noteq> CHR 0x0A \<and> c \<noteq> CHR 0x0D)
                     \<and> (\<forall>c\<in>set final. c \<noteq> CHR 0x0A \<and> c \<noteq> CHR 0x0D)
                     \<and> bytes = concat (map (\<lambda>l. l @ t) ls) @ final \<longrightarrow>
                     total_instructions m
                       = int (length ls) + (if final = [] then 0 else 1) - 1)"
  proof (intro exI [of _ ?m] conjI allI impI)
    show "CSVInstructionManager_init fs fname = Inr ?m" by (rule 1)
    show "filename ?m = fname" by simp
    show "(total_instructions ?m = - 1) = (bytes = [])" by (rule 2)
    show "- 1 \<le> total_instructions ?m" by simp
    show "total_instructions ?m = int (length ls) + (if final = [] then 0 else 1) - 1"
      if "(t = [CHR 0x0A] \<or> t = [CHR 0x0D] \<or> t = [CHR 0x0D, CHR 0x0A])
           \<and> (\<forall>l\<in>set ls. \<forall>c\<in>set l. c \<noteq> CHR 0x0A \<and> c \<noteq> CHR 0x0D)
           \<and> (\<forall>c\<in>set final. c \<noteq> CHR 0x0A \<and> c \<noteq> CHR 0x0D)
           \<and> bytes = concat (map (\<lambda>l. l @ t) ls) @ final" for t ls final
      using 3 [of t ls final] that by blast
  qed
qed

theorem total_instructions_is_lines_minus_one_witness:
  "(\<exists>m. CSVInstructionManager_init [''instructions/update_user_photos.csv'' \<mapsto> []]
          ''instructions/update_user_photos.csv'' = Inr m \<and> total_instructions m = - 1)
   \<and> (\<exists>m. CSVInstructionManager_init
          [''instructions/update_user_photos.csv'' \<mapsto> ''user_email,photo_url'' @ [CHR 0x0A]]
          ''instructions/update_user_photos.csv'' = Inr m \<and> total_instructions m = 0)
   \<and> (\<exists>m. CSVInstructionManager_init
          [''instructions/update_user_photos.csv'' \<mapsto>
             ''user_email,photo_url'' @ [CHR 0x0D, CHR 0x0A] @ ''a@x.org,p'' @ [CHR 0x0D, CHR 0x0A]
             @ ''b@x.org,q'']
          ''instructions/update_user_photos.csv'' = Inr m \<and> total_instructions m = 2)
   \<and> CSVInstructionManager_init Map.empty ''instructions/update_user_photos.csv''
        = Inl (OSError ''instructions/update_user_photos.csv'')
   \<and> CSVInstructionManager_init [''instructions/update_user_photos.csv'' \<mapsto> [CHR 0xFF]]
          ''instructions/update_user_photos.csv''
        = Inl (UnicodeDecodeError ''instructions/update_user_photos.csv'')"
proof (intro conjI)
  let ?f = "''instructions/update_user_photos.csv''"
  show "\<exists>m. CSVInstructionManager_init [?f \<mapsto> []] ?f = Inr m \<and> total_instructions m = - 1"
    using total_instructions_is_lines_minus_one [of "[?f \<mapsto> []]" ?f]
    by (auto simp: utf8_valid_def)
  have v1: "utf8_valid (''user_email,photo_url'' @ [CHR 0x0A])"
    by (simp add: utf8_valid_def)
  from total_instructions_is_lines_minus_one
         [of "[?f \<mapsto> ''user_email,photo_url'' @ [CHR 0x0A]]" ?f] v1
  obtain m where m: "CSVInstructionManager_init [?f \<mapsto> ''user_email,photo_url'' @ [CHR 0x0A]] ?f = Inr m"
    and cnt: "\<And>t ls final.
                (t = [CHR 0x0A] \<or> t = [CHR 0x0D] \<or> t = [CHR 0x0D, CHR 0x0A])
                \<and> (\<forall>l\<in>set ls. \<forall>c\<in>set l. c \<noteq> CHR 0x0A \<and> c \<noteq> CHR 0x0D)
                \<and> (\<forall>c\<in>set final. c \<noteq> CHR 0x0A \<and> c \<noteq> CHR 0x0D)
                \<and> ''user_email,photo_url'' @ [CHR 0x0A] = concat (map (\<lambda>l. l @ t) ls) @ final \<Longrightarrow>
                total_instructions m = int (length ls) + (if final = [] then 0 else 1) - 1"
    by auto
  have "total_instructions m = 0"
    using cnt [of "[CHR 0x0A]" "[''user_email,photo_url'']" "[]"] by simp
  with m show "\<exists>m. CSVInstructionManager_init
          [?f \<mapsto> ''user_email,photo_url'' @ [CHR 0x0A]] ?f = Inr m \<and> total_instructions m = 0"
    by blast
  let ?three = "''user_email,photo_url'' @ [CHR 0x0D, CHR 0x0A] @ ''a@x.org,p'' @ [CHR 0x0D, CHR 0x0A]
             @ ''b@x.org,q''"
  have v3: "utf8_valid ?three"
    by (simp add: utf8_valid_def)
  from total_instructions_is_lines_minus_one [of "[?f \<mapsto> ?three]" ?f] v3
  obtain m3 where m3: "CSVInstructionManager_init [?f \<mapsto> ?three] ?f = Inr m3"
    and cnt3: "\<And>t ls final.
                (t = [CHR 0x0A] \<or> t = [CHR 0x0D] \<or> t = [CHR 0x0D, CHR 0x0A])
                \<and> (\<forall>l\<in>set ls. \<forall>c\<in>set l. c \<noteq> CHR 0x0A \<and> c \<noteq> CHR 0x0D)
                \<and> (\<forall>c\<in>set final. c \<noteq> CHR 0x0A \<and> c \<noteq> CHR 0x0D)
                \<and> ?three = concat (map (\<lambda>l. l @ t) ls) @ final \<Longrightarrow>
                total_instructions m3 = int (length ls) + (if final = [] then 0 else 1) - 1"
    by auto
  have "total_instructions m3 = 2"
    using cnt3 [of "[CHR 0x0D, CHR 0x0A]" "[''user_email,photo_url'', ''a@x.org,p'']" "''b@x.org,q''"]
    by simp
  with m3 show "\<exists>m. CSVInstructionManager_init [?f \<mapsto> ?three] ?f = Inr m \<and> total_instructions m = 2"
    by blast
  show "CSVInstructionManager_init Map.empty ?f = Inl (OSError ?f)"
    using total_instructions_is_lines_minus_one [of Map.empty ?f] by simp
  show "CSVInstructionManager_init [?f \<mapsto> [CHR 0xFF]] ?f = Inl (UnicodeDecodeError ?f)"
    using total_instructions_is_lines_minus_one [of "[?f \<mapsto> [CHR 0xFF]]" ?f]
    by (simp add: utf8_valid_def)
qed

text \<open>A file that opens and holds the byte 0xFF: the constructor raises.\<close>

theorem undecodable_file_fails_after_opening:
  "[''instructions/update_user_photos.csv'' \<mapsto> [CHR 0xFF]] ''instructions/update_user_photos.csv''
     \<noteq> None
   \<and> CSVInstructionManager_init [''instructions/update_user_photos.csv'' \<mapsto> [CHR 0xFF]]
          ''instructions/update_user_photos.csv''
        = Inl (UnicodeDecodeError ''instructions/update_user_photos.csv'')"
  by (simp add: CSVInstructionManager_init_def utf8_valid_def)

subsection \<open>Rows and entries\<close>

lemma failed_fields_mem:
  "Inl n \<in> set rs \<Longrightarrow> n \<in> set (failed_fields rs)"
  by (induction rs rule: failed_fields.induct) auto

lemma validate_field_missing:
  "required f \<Longrightarrow> row (Some (field_name f)) = None \<Longrightarrow> validate_field row f = Inl (field_name f)"
  by (simp add: validate_field_def)

lemma construct_missing_required:
  assumes "f \<in> set instructions_type" and "required f" and "row (Some (field_name f)) = None"
  shows "\<exists>e. construct instructions_type row = Inl e"
proof -
  have "Inl (field_name f) \<in> set (map (validate_field row) instructions_type)"
    using assms validate_field_missing [of f row] by force
  then have "failed_fields (map (validate_field row) instructions_type) \<noteq> []"
    using failed_fields_mem by fastforce
  then show ?thesis by (simp add: construct_def Let_def)
qed




















section \<open>Properties of the photo-update processor\<close>




















end
